theory Spec2Isabelle
  imports Complex_Main "HOL-Library.Word"
begin

section \<open>The ground drive controller of the path follower\<close>

text \<open>
  A shallow embedding of \<^verbatim>\<open>flight/modules/PathFollower/grounddrivecontroller.cpp\<close>.
  The controller object, the two global structures it reaches through pointers
  (\<^verbatim>\<open>pathDesired\<close>, \<^verbatim>\<open>pathStatus\<close>) and the UAVObjects it reads and publishes are
  the fields of one state record; every method takes the state and returns the new one.
  A C \<^verbatim>\<open>float\<close> is idealised as a \<^typ>\<open>real\<close>: rounding, infinities and NaN are not
  modelled. A dereference of the null settings pointer and a failed assertion are
  values of the type \<open>fault\<close>.
\<close>

subsection \<open>Data\<close>

text \<open>\<^verbatim>\<open>PositionStateData\<close>, \<^verbatim>\<open>VelocityStateData\<close> and \<^verbatim>\<open>VelocityDesiredData\<close>:
  the source reads and writes their fields North, East and Down.\<close>

record NED =
  North :: real
  East :: real
  Down :: real

type_synonym PositionStateData = NED
type_synonym VelocityStateData = NED
type_synonym VelocityDesiredData = NED

text \<open>\<^verbatim>\<open>float cur[3]\<close> and the three-element vectors of \<^verbatim>\<open>struct path_status\<close>.\<close>

type_synonym float3 = "real \<times> real \<times> real"

text \<open>\<^verbatim>\<open>struct path_status\<close>, filled by \<^verbatim>\<open>path_progress\<close>: the fields the source reads.
  The structure has no field that reports a fault.\<close>

record path_status =
  progress_error :: real
  progress_fractional_progress :: real
  path_vector :: float3
  correction_vector :: float3

text \<open>Modelled from the spec: \<^verbatim>\<open>PathDesiredData\<close> is declared in a header that is not
  among the sources. The source reads its field Mode only; Start and End are the end
  points of the "segment or arc" the spec calls the PathDefinition.\<close>

record PathDesiredData =
  Start :: NED
  End :: NED
  Mode :: "8 word"

datatype PathStatusStatus =
    PATHSTATUS_STATUS_INPROGRESS
  | PATHSTATUS_STATUS_COMPLETED
  | PATHSTATUS_STATUS_WARNING
  | PATHSTATUS_STATUS_CRITICAL

text \<open>\<^verbatim>\<open>PathStatusData\<close>: the fields the source writes.\<close>

record PathStatusData =
  Status :: PathStatusStatus
  error :: real
  fractional_progress :: real
  path_direction_north :: real
  path_direction_east :: real
  path_direction_down :: real
  correction_direction_north :: real
  correction_direction_east :: real
  correction_direction_down :: real
  path_time :: real

text \<open>\<^verbatim>\<open>GroundPathFollowerSettingsData\<close>: the fields the source reads; a nested
  structure \<^verbatim>\<open>SpeedPI.Kp\<close> is the field \<open>SpeedPI_Kp\<close>.\<close>

record GroundPathFollowerSettingsData =
  HorizontalVelMax :: real
  HorizontalPosP :: real
  SpeedPI_Kp :: real
  SpeedPI_Ki :: real
  SpeedPI_Kd :: real
  SpeedPI_Beta :: real
  ThrustLimit_Min :: real
  ThrustLimit_Max :: real
  UpdatePeriod :: real
  VelocityFeedForward :: real
  CourseFeedForward :: real

datatype StabilizationMode =
    STABILIZATIONDESIRED_STABILIZATIONMODE_MANUAL
  | STABILIZATIONDESIRED_STABILIZATIONMODE_RATE
  | STABILIZATIONDESIRED_STABILIZATIONMODE_ATTITUDE

record StabilizationDesiredData =
  Roll :: real
  Pitch :: real
  Yaw :: real
  Thrust :: real
  StabilizationMode_Roll :: StabilizationMode
  StabilizationMode_Pitch :: StabilizationMode
  StabilizationMode_Yaw :: StabilizationMode
  StabilizationMode_Thrust :: StabilizationMode

datatype SystemAlarmsAlarm =
    SYSTEMALARMS_ALARM_UNINITIALISED
  | SYSTEMALARMS_ALARM_OK
  | SYSTEMALARMS_ALARM_WARNING
  | SYSTEMALARMS_ALARM_CRITICAL
  | SYSTEMALARMS_ALARM_ERROR

datatype fault = NullPointer | AssertFailed

subsection \<open>The cascade controller \<^verbatim>\<open>controlNE\<close>\<close>

text \<open>Modelled from the spec: the class \<^verbatim>\<open>PIDControlNE\<close> of the member \<^verbatim>\<open>controlNE\<close> is
  not among the sources. Its state is what section 4.3 and the data model of the spec
  name: the parameters set by the three parameter-update operations, the current
  velocity supplied by "update velocity state", the desired velocity stored by the
  outer stage, the integrator accumulators of the velocity loop, the last-command
  cache and the armed flag.\<close>

record PIDControlNE =
  positionGain :: real
  loop_Kp :: real
  loop_Ki :: real
  loop_Kd :: real
  loop_Beta :: real
  loop_dT :: real
  loop_velMax :: real
  command_min :: real
  command_max :: real
  command_feedForward :: real
  velocityStateNE :: "real \<times> real"
  velocityDesiredNE :: "real \<times> real"
  integratorNE :: "real \<times> real"
  lastCommandNE :: "real \<times> real"
  armed :: bool

text \<open>Modelled from the spec: the parameter-update operations of \<^verbatim>\<open>PIDControlNE\<close>
  ("re-parameterization must be safe to call at any time and never retroactively
  rewrites the integrator"): each stores its arguments and nothing else.\<close>

definition UpdatePositionalParameters :: "PIDControlNE \<Rightarrow> real \<Rightarrow> PIDControlNE" where
  "UpdatePositionalParameters c kp = c\<lparr>positionGain := kp\<rparr>"

definition UpdateParameters ::
  "PIDControlNE \<Rightarrow> real \<Rightarrow> real \<Rightarrow> real \<Rightarrow> real \<Rightarrow> real \<Rightarrow> real \<Rightarrow> PIDControlNE" where
  "UpdateParameters c kp ki kd beta dT velMax =
     c\<lparr>loop_Kp := kp, loop_Ki := ki, loop_Kd := kd, loop_Beta := beta,
       loop_dT := dT, loop_velMax := velMax\<rparr>"

definition UpdateCommandParameters :: "PIDControlNE \<Rightarrow> real \<Rightarrow> real \<Rightarrow> real \<Rightarrow> PIDControlNE" where
  "UpdateCommandParameters c mn mx ff =
     c\<lparr>command_min := mn, command_max := mx, command_feedForward := ff\<rparr>"

text \<open>Modelled from the spec: "the current velocity is supplied externally each cycle
  via an explicit update velocity state call"; "getVelocityDesired" reads the desired
  velocity the outer stage stored.\<close>

definition UpdateVelocityState :: "PIDControlNE \<Rightarrow> real \<Rightarrow> real \<Rightarrow> PIDControlNE" where
  "UpdateVelocityState c n e = c\<lparr>velocityStateNE := (n, e)\<rparr>"

definition GetVelocityDesired :: "PIDControlNE \<Rightarrow> real \<times> real" where
  "GetVelocityDesired c = velocityDesiredNE c"

text \<open>Modelled from the spec: "activate() resets the integrator and cached command to
  zero and marks the stage armed; deactivate() zeros the same state and marks it
  disarmed".\<close>

definition PIDControlNE_Activate :: "PIDControlNE \<Rightarrow> PIDControlNE" where
  "PIDControlNE_Activate c = c\<lparr>integratorNE := (0, 0), lastCommandNE := (0, 0), armed := True\<rparr>"

definition PIDControlNE_Deactivate :: "PIDControlNE \<Rightarrow> PIDControlNE" where
  "PIDControlNE_Deactivate c = c\<lparr>integratorNE := (0, 0), lastCommandNE := (0, 0), armed := False\<rparr>"

subsection \<open>What the controller calls and the sources do not define\<close>

text \<open>
  The path-geometry engine \<^verbatim>\<open>path_progress(pathDesired, cur, &progress, mode3D)\<close> and
  the two control laws of the cascade controller, \<^verbatim>\<open>ControlPositionWithPath\<close> (the
  outer stage) and \<^verbatim>\<open>GetNECommand\<close> (the inner stage, which may change the
  controller's own state), are parameters: every theorem holds whatever they compute.
  \<^verbatim>\<open>path_progress\<close> returns \<^verbatim>\<open>void\<close>; all it hands back is the progress structure.
\<close>

record externals =
  path_progress :: "PathDesiredData \<Rightarrow> float3 \<Rightarrow> bool \<Rightarrow> path_status"
  ControlPositionWithPath :: "PIDControlNE \<Rightarrow> path_status \<Rightarrow> PIDControlNE"
  GetNECommand :: "PIDControlNE \<Rightarrow> (real \<times> real) \<times> PIDControlNE"

text \<open>Modelled from the spec: the macro \<^verbatim>\<open>PIOS_Assert\<close> is not among the sources. A
  missing parameter structure is "fatal at initialization": execution does not go on
  past a failed assertion.\<close>

definition PIOS_Assert :: "bool \<Rightarrow> fault + unit" where
  "PIOS_Assert test = (if test then Inr () else Inl AssertFailed)"

text \<open>Modelled from the spec: \<^verbatim>\<open>boundf\<close>, \<^verbatim>\<open>squaref\<close> and \<^verbatim>\<open>RAD2DEG\<close> come from headers
  that are not among the sources. The throttle is "sqrt(north squared + east squared)", then
  "clamped to [thrustMin, thrustMax]"; the course is expressed in degrees.\<close>

definition boundf :: "real \<Rightarrow> real \<Rightarrow> real \<Rightarrow> real" where
  "boundf val lo hi = (if val < lo then lo else if val > hi then hi else val)"

definition squaref :: "real \<Rightarrow> real" where
  "squaref x = x * x"

definition RAD2DEG :: "real \<Rightarrow> real" where
  "RAD2DEG rad = rad * (180 / pi)"

text \<open>The C library's \<^verbatim>\<open>sqrtf\<close> and \<^verbatim>\<open>atan2f\<close> on reals: \<open>atan2f y x\<close> is the angle of
  the point \<open>(x, y)\<close> in \<open>(-\<pi>, \<pi>]\<close>, and 0 at the origin.\<close>

definition sqrtf :: "real \<Rightarrow> real" where
  "sqrtf x = sqrt x"

definition atan2f :: "real \<Rightarrow> real \<Rightarrow> real" where
  "atan2f y x =
     (if 0 < x then arctan (y / x)
      else if x < 0 then (if 0 \<le> y then arctan (y / x) + pi else arctan (y / x) - pi)
      else if 0 < y then pi / 2
      else if y < 0 then - (pi / 2)
      else 0)"

subsection \<open>The controller and the objects it reaches\<close>

text \<open>
  \<open>groundSettings\<close>, \<open>mActive\<close>, \<open>mMode\<close> and \<open>controlNE\<close> are the members of
  \<^verbatim>\<open>GroundDriveController\<close> (the pointer \<open>groundSettings\<close> is null until Initialize);
  \<open>pathDesired\<close> and \<open>pathStatus\<close> are the structures behind the two global pointers;
  the \<open>uavo_\<close> fields are the UAVObjects read by \<^verbatim>\<open>PositionStateGet\<close> and
  \<^verbatim>\<open>VelocityStateGet\<close> and written by \<^verbatim>\<open>VelocityDesiredSet\<close>,
  \<^verbatim>\<open>StabilizationDesiredSet\<close> and \<^verbatim>\<open>PathStatusSet\<close>; \<open>alarm_GUIDANCE\<close> is the alarm
  \<^verbatim>\<open>AlarmsSet(SYSTEMALARMS_ALARM_GUIDANCE, _)\<close> sets.
\<close>

record state =
  groundSettings :: "GroundPathFollowerSettingsData option"
  mActive :: bool
  mMode :: "8 word"
  controlNE :: PIDControlNE
  pathDesired :: PathDesiredData
  pathStatus :: PathStatusData
  uavo_PositionState :: PositionStateData
  uavo_VelocityState :: VelocityStateData
  uavo_VelocityDesired :: VelocityDesiredData
  uavo_StabilizationDesired :: StabilizationDesiredData
  uavo_PathStatus :: PathStatusData
  alarm_GUIDANCE :: SystemAlarmsAlarm

subsection \<open>The methods\<close>

definition resetGlobals :: "state \<Rightarrow> state" where
  "resetGlobals s = s\<lparr>pathStatus := (pathStatus s)\<lparr>path_time := 0\<rparr>\<rparr>"

definition SettingsUpdated :: "state \<Rightarrow> fault + state" where
  "SettingsUpdated s =
     (case groundSettings s of
        None \<Rightarrow> Inl NullPointer
      | Some gs \<Rightarrow>
          let dT = UpdatePeriod gs / 1000;
              c1 = UpdatePositionalParameters (controlNE s) (HorizontalPosP gs);
              c2 = UpdateParameters c1 (SpeedPI_Kp gs) (SpeedPI_Ki gs) (SpeedPI_Kd gs)
                     (SpeedPI_Beta gs) dT (HorizontalVelMax gs);
              c3 = UpdateCommandParameters c2 (ThrustLimit_Min gs) (ThrustLimit_Max gs)
                     (VelocityFeedForward gs)
          in Inr (s\<lparr>controlNE := c3\<rparr>))"

definition Activate :: "state \<Rightarrow> fault + state" where
  "Activate s =
     (if \<not> mActive s then
        (case SettingsUpdated (s\<lparr>mActive := True\<rparr>) of
           Inl e \<Rightarrow> Inl e
         | Inr s1 \<Rightarrow>
             let s2 = s1\<lparr>controlNE := PIDControlNE_Activate (controlNE s1)\<rparr>;
                 s3 = resetGlobals s2
             in Inr (s3\<lparr>mMode := Mode (pathDesired s3)\<rparr>))
      else Inr s)"

definition IsActive :: "state \<Rightarrow> 8 word" where
  "IsActive s = (if mActive s then 1 else 0)"

definition GroundDriveController_Mode :: "state \<Rightarrow> 8 word" where
  "GroundDriveController_Mode s = mMode s"

definition ObjectiveUpdated :: "state \<Rightarrow> state" where
  "ObjectiveUpdated s = s"

definition Deactivate :: "state \<Rightarrow> state" where
  "Deactivate s =
     (if mActive s then
        (let s1 = s\<lparr>mActive := False\<rparr>;
             s2 = resetGlobals s1
         in s2\<lparr>controlNE := PIDControlNE_Deactivate (controlNE s2)\<rparr>)
      else s)"

definition Initialize ::
  "GroundPathFollowerSettingsData option \<Rightarrow> state \<Rightarrow> fault + (int \<times> state)" where
  "Initialize ptr_groundSettings s =
     (case PIOS_Assert (ptr_groundSettings \<noteq> None) of
        Inl e \<Rightarrow> Inl e
      | Inr _ \<Rightarrow> Inr (0, resetGlobals (s\<lparr>groundSettings := ptr_groundSettings\<rparr>)))"

definition updatePathVelocity :: "externals \<Rightarrow> real \<Rightarrow> state \<Rightarrow> state" where
  "updatePathVelocity ext kFF s =
     (let positionState = uavo_PositionState s;
          velocityState = uavo_VelocityState s;
          c1 = UpdateVelocityState (controlNE s) (North velocityState) (East velocityState);
          cur = (North positionState + North velocityState * kFF,
                 East positionState + East velocityState * kFF,
                 Down positionState + Down velocityState * kFF);
          progress = path_progress ext (pathDesired s) cur False;
          c2 = ControlPositionWithPath ext c1 progress;
          (north, east) = GetVelocityDesired c2;
          velocityDesired = \<lparr>North = north, East = east, Down = 0\<rparr>;
          ps = (pathStatus s)\<lparr>
                 error := progress_error progress,
                 fractional_progress := progress_fractional_progress progress,
                 path_direction_north := fst (path_vector progress),
                 path_direction_east := fst (snd (path_vector progress)),
                 path_direction_down := snd (snd (path_vector progress)),
                 correction_direction_north := fst (correction_vector progress),
                 correction_direction_east := fst (snd (correction_vector progress)),
                 correction_direction_down := snd (snd (correction_vector progress))\<rparr>
      in s\<lparr>controlNE := c2, pathStatus := ps, uavo_VelocityDesired := velocityDesired\<rparr>)"

definition updateGroundDesiredAttitude :: "externals \<Rightarrow> state \<Rightarrow> fault + (8 word \<times> state)" where
  "updateGroundDesiredAttitude ext s =
     (let ((northCommand, eastCommand), c1) = GetNECommand ext (controlNE s);
          courseCommand = RAD2DEG (atan2f eastCommand northCommand);
          speedCommand = sqrtf (squaref northCommand + squaref eastCommand)
      in case groundSettings s of
           None \<Rightarrow> Inl NullPointer
         | Some gs \<Rightarrow>
             let stabDesired = \<lparr>
                   Roll = 0, Pitch = 0, Yaw = courseCommand,
                   Thrust = boundf speedCommand (ThrustLimit_Min gs) (ThrustLimit_Max gs),
                   StabilizationMode_Roll = STABILIZATIONDESIRED_STABILIZATIONMODE_MANUAL,
                   StabilizationMode_Pitch = STABILIZATIONDESIRED_STABILIZATIONMODE_MANUAL,
                   StabilizationMode_Yaw = STABILIZATIONDESIRED_STABILIZATIONMODE_MANUAL,
                   StabilizationMode_Thrust = STABILIZATIONDESIRED_STABILIZATIONMODE_MANUAL\<rparr>
             in Inr (1, s\<lparr>controlNE := c1, uavo_StabilizationDesired := stabDesired\<rparr>))"

definition updateAutoPilotGround :: "externals \<Rightarrow> state \<Rightarrow> fault + (8 word \<times> state)" where
  "updateAutoPilotGround ext s =
     (case groundSettings s of
        None \<Rightarrow> Inl NullPointer
      | Some gs \<Rightarrow> updateGroundDesiredAttitude ext (updatePathVelocity ext (CourseFeedForward gs) s))"

definition UpdateAutoPilot :: "externals \<Rightarrow> state \<Rightarrow> fault + state" where
  "UpdateAutoPilot ext s =
     (case updateAutoPilotGround ext s of
        Inl e \<Rightarrow> Inl e
      | Inr (result, s1) \<Rightarrow>
          let s2 = (if result \<noteq> 0
                    then s1\<lparr>alarm_GUIDANCE := SYSTEMALARMS_ALARM_OK\<rparr>
                    else s1\<lparr>pathStatus := (pathStatus s1)\<lparr>Status := PATHSTATUS_STATUS_CRITICAL\<rparr>,
                            alarm_GUIDANCE := SYSTEMALARMS_ALARM_WARNING\<rparr>)
          in Inr (s2\<lparr>uavo_PathStatus := pathStatus s2\<rparr>))"

subsection \<open>A degenerate path, and one concrete cycle\<close>

text \<open>Modelled from the spec: the geometry fault of section 7 is a "degenerate or missing
  path", for example a zero-length one: a path whose start is its end. The source has no
  test of this kind.\<close>

definition degenerate_path :: "PathDesiredData \<Rightarrow> bool" where
  "degenerate_path pd = (Start pd = End pd)"

text \<open>
  Concrete settings, controller state and UAVObjects, used to evaluate the methods.
  \<open>example_ext\<close> is a toy path engine (the correction is the vector from the query point
  to the end of the path) with toy control laws (a proportional outer stage limited to
  the velocity limit, a proportional inner stage with feed-forward); \<open>fault_state\<close> is
  an active controller on a zero-length path.
\<close>

definition example_settings :: GroundPathFollowerSettingsData where
  "example_settings =
     \<lparr>HorizontalVelMax = 3, HorizontalPosP = 1 / 2,
      SpeedPI_Kp = 1, SpeedPI_Ki = 0, SpeedPI_Kd = 0, SpeedPI_Beta = 0,
      ThrustLimit_Min = 0, ThrustLimit_Max = 1, UpdatePeriod = 100,
      VelocityFeedForward = 0, CourseFeedForward = 1\<rparr>"

definition example_controlNE :: PIDControlNE where
  "example_controlNE =
     \<lparr>positionGain = 1 / 2, loop_Kp = 1, loop_Ki = 0, loop_Kd = 0, loop_Beta = 0,
      loop_dT = 1 / 10, loop_velMax = 3, command_min = 0, command_max = 1,
      command_feedForward = 0, velocityStateNE = (0, 0), velocityDesiredNE = (3, 0),
      integratorNE = (2, - 1), lastCommandNE = (1 / 2, 1 / 4), armed = False\<rparr>"

definition example_pathStatus :: PathStatusData where
  "example_pathStatus =
     \<lparr>Status = PATHSTATUS_STATUS_INPROGRESS, error = 0, fractional_progress = 0,
      path_direction_north = 0, path_direction_east = 0, path_direction_down = 0,
      correction_direction_north = 0, correction_direction_east = 0,
      correction_direction_down = 0, path_time = 0\<rparr>"

definition example_stabDesired :: StabilizationDesiredData where
  "example_stabDesired =
     \<lparr>Roll = 0, Pitch = 0, Yaw = 0, Thrust = 0,
      StabilizationMode_Roll = STABILIZATIONDESIRED_STABILIZATIONMODE_ATTITUDE,
      StabilizationMode_Pitch = STABILIZATIONDESIRED_STABILIZATIONMODE_ATTITUDE,
      StabilizationMode_Yaw = STABILIZATIONDESIRED_STABILIZATIONMODE_RATE,
      StabilizationMode_Thrust = STABILIZATIONDESIRED_STABILIZATIONMODE_MANUAL\<rparr>"

definition example_state :: state where
  "example_state =
     \<lparr>groundSettings = Some example_settings, mActive = False, mMode = 0,
      controlNE = example_controlNE,
      pathDesired = \<lparr>Start = \<lparr>North = 0, East = 0, Down = 0\<rparr>,
                      End = \<lparr>North = 10, East = 0, Down = 0\<rparr>, Mode = 4\<rparr>,
      pathStatus = example_pathStatus,
      uavo_PositionState = \<lparr>North = 0, East = 0, Down = 0\<rparr>,
      uavo_VelocityState = \<lparr>North = 0, East = 0, Down = 0\<rparr>,
      uavo_VelocityDesired = \<lparr>North = 0, East = 0, Down = 7\<rparr>,
      uavo_StabilizationDesired = example_stabDesired,
      uavo_PathStatus = example_pathStatus,
      alarm_GUIDANCE = SYSTEMALARMS_ALARM_UNINITIALISED\<rparr>"

definition example_active :: state where
  "example_active = example_state\<lparr>mActive := True, mMode := 4\<rparr>"

definition fault_state :: state where
  "fault_state =
     example_active\<lparr>pathDesired :=
       \<lparr>Start = \<lparr>North = 10, East = 0, Down = 0\<rparr>,
        End = \<lparr>North = 10, East = 0, Down = 0\<rparr>, Mode = 4\<rparr>\<rparr>"

definition example_ext :: externals where
  "example_ext =
     \<lparr>path_progress = (\<lambda>pd cur mode3D.
        \<lparr>progress_error = North (End pd) - fst cur,
         progress_fractional_progress = 0,
         path_vector = (North (End pd) - North (Start pd), East (End pd) - East (Start pd),
                        Down (End pd) - Down (Start pd)),
         correction_vector = (North (End pd) - fst cur, East (End pd) - fst (snd cur),
                              Down (End pd) - snd (snd cur))\<rparr>),
      ControlPositionWithPath = (\<lambda>c pr.
        c\<lparr>velocityDesiredNE :=
            (min (positionGain c * fst (correction_vector pr)) (loop_velMax c),
             min (positionGain c * fst (snd (correction_vector pr))) (loop_velMax c))\<rparr>),
      GetNECommand = (\<lambda>c.
        let cmd = (loop_Kp c * (fst (velocityDesiredNE c) - fst (velocityStateNE c))
                     + command_feedForward c,
                   loop_Kp c * (snd (velocityDesiredNE c) - snd (velocityStateNE c))
                     + command_feedForward c)
        in (cmd, c\<lparr>lastCommandNE := cmd\<rparr>))\<rparr>"

section \<open>Properties\<close>

subsection \<open>Auxiliary facts\<close>

text \<open>\<open>updatePathVelocity\<close> touches neither the settings pointer, the lifecycle members,
  the path-time accumulator nor the status of the path.\<close>

lemma updatePathVelocity_frame:
  "groundSettings (updatePathVelocity ext kFF s) = groundSettings s"
  "mActive (updatePathVelocity ext kFF s) = mActive s"
  "mMode (updatePathVelocity ext kFF s) = mMode s"
  "path_time (pathStatus (updatePathVelocity ext kFF s)) = path_time (pathStatus s)"
  "Status (pathStatus (updatePathVelocity ext kFF s)) = Status (pathStatus s)"
  "Down (uavo_VelocityDesired (updatePathVelocity ext kFF s)) = 0"
  by (simp_all add: updatePathVelocity_def Let_def split: prod.splits)

lemma updateGroundDesiredAttitude_Some:
  assumes "groundSettings s = Some gs"
  shows "updateGroundDesiredAttitude ext s =
     Inr (1, s\<lparr>controlNE := snd (GetNECommand ext (controlNE s)),
               uavo_StabilizationDesired := \<lparr>
                 Roll = 0, Pitch = 0,
                 Yaw = RAD2DEG (atan2f (snd (fst (GetNECommand ext (controlNE s))))
                                       (fst (fst (GetNECommand ext (controlNE s))))),
                 Thrust = boundf (sqrtf (squaref (fst (fst (GetNECommand ext (controlNE s))))
                                       + squaref (snd (fst (GetNECommand ext (controlNE s))))))
                            (ThrustLimit_Min gs) (ThrustLimit_Max gs),
                 StabilizationMode_Roll = STABILIZATIONDESIRED_STABILIZATIONMODE_MANUAL,
                 StabilizationMode_Pitch = STABILIZATIONDESIRED_STABILIZATIONMODE_MANUAL,
                 StabilizationMode_Yaw = STABILIZATIONDESIRED_STABILIZATIONMODE_MANUAL,
                 StabilizationMode_Thrust = STABILIZATIONDESIRED_STABILIZATIONMODE_MANUAL\<rparr>\<rparr>)"
  using assms by (simp add: updateGroundDesiredAttitude_def Let_def split: prod.splits)

lemma updateAutoPilotGround_Some:
  assumes "groundSettings s = Some gs"
  shows "updateAutoPilotGround ext s =
     updateGroundDesiredAttitude ext (updatePathVelocity ext (CourseFeedForward gs) s)"
  using assms by (simp add: updateAutoPilotGround_def)

lemma UpdateAutoPilot_Some:
  assumes "groundSettings s = Some gs"
    and "updateGroundDesiredAttitude ext (updatePathVelocity ext (CourseFeedForward gs) s) = Inr (1, s1)"
  shows "UpdateAutoPilot ext s =
     Inr (s1\<lparr>alarm_GUIDANCE := SYSTEMALARMS_ALARM_OK, uavo_PathStatus := pathStatus s1\<rparr>)"
  using assms by (simp add: UpdateAutoPilot_def updateAutoPilotGround_def)



lemma UpdateAutoPilot_result:
  assumes "groundSettings s = Some gs"
  shows "UpdateAutoPilot ext s =
     Inr ((updatePathVelocity ext (CourseFeedForward gs) s)\<lparr>
            controlNE := snd (GetNECommand ext
                          (controlNE (updatePathVelocity ext (CourseFeedForward gs) s))),
            uavo_StabilizationDesired := \<lparr>
              Roll = 0, Pitch = 0,
              Yaw = RAD2DEG (atan2f
                      (snd (fst (GetNECommand ext
                          (controlNE (updatePathVelocity ext (CourseFeedForward gs) s)))))
                      (fst (fst (GetNECommand ext
                          (controlNE (updatePathVelocity ext (CourseFeedForward gs) s)))))),
              Thrust = boundf (sqrtf
                      (squaref (fst (fst (GetNECommand ext
                          (controlNE (updatePathVelocity ext (CourseFeedForward gs) s)))))
                       + squaref (snd (fst (GetNECommand ext
                          (controlNE (updatePathVelocity ext (CourseFeedForward gs) s)))))))
                      (ThrustLimit_Min gs) (ThrustLimit_Max gs),
              StabilizationMode_Roll = STABILIZATIONDESIRED_STABILIZATIONMODE_MANUAL,
              StabilizationMode_Pitch = STABILIZATIONDESIRED_STABILIZATIONMODE_MANUAL,
              StabilizationMode_Yaw = STABILIZATIONDESIRED_STABILIZATIONMODE_MANUAL,
              StabilizationMode_Thrust = STABILIZATIONDESIRED_STABILIZATIONMODE_MANUAL\<rparr>,
            alarm_GUIDANCE := SYSTEMALARMS_ALARM_OK,
            uavo_PathStatus := pathStatus (updatePathVelocity ext (CourseFeedForward gs) s)\<rparr>)"
proof -
  let ?s0 = "updatePathVelocity ext (CourseFeedForward gs) s"
  have gs0: "groundSettings ?s0 = Some gs"
    using assms by (simp add: updatePathVelocity_frame)
  show ?thesis
    by (simp add: UpdateAutoPilot_Some [OF assms updateGroundDesiredAttitude_Some [OF gs0]])
qed

text \<open>\<open>atan2f y x\<close> is the angle of the vector \<open>(x, y)\<close>: the vector is its length times
  \<open>(cos, sin)\<close> of that angle, and the angle lies in \<open>(-\<pi>, \<pi>]\<close>.\<close>

lemma hyp_split:
  assumes "x \<noteq> 0"
  shows "sqrt (x\<^sup>2 + y\<^sup>2) = \<bar>x\<bar> * sqrt (1 + (y / x)\<^sup>2)"
proof -
  have "x\<^sup>2 + y\<^sup>2 = x\<^sup>2 * (1 + (y / x)\<^sup>2)"
    using assms by (simp add: field_simps power2_eq_square)
  then show ?thesis
    by (simp add: real_sqrt_mult)
qed

lemma atan2f_range: "- pi < atan2f y x \<and> atan2f y x \<le> pi"
proof -
  have a: "- (pi / 2) < arctan (y / x)" "arctan (y / x) < pi / 2"
    by (rule arctan_lbound, rule arctan_ubound)
  have neg: "x < 0 \<Longrightarrow> 0 \<le> y \<Longrightarrow> arctan (y / x) \<le> 0"
    by (simp add: divide_nonneg_neg arctan_le_zero_iff)
  have pos: "x < 0 \<Longrightarrow> y < 0 \<Longrightarrow> 0 < arctan (y / x)"
    by (simp add: divide_neg_neg arctan_less_zero_iff zero_less_arctan_iff)
  have p: "0 < pi" by simp
  show ?thesis
    unfolding atan2f_def using a neg pos p by (auto; linarith)
qed

lemma atan2f_polar:
  assumes "x \<noteq> 0 \<or> y \<noteq> 0"
  shows "sqrt (x\<^sup>2 + y\<^sup>2) * cos (atan2f y x) = x \<and>
         sqrt (x\<^sup>2 + y\<^sup>2) * sin (atan2f y x) = y"
proof (cases "x = 0")
  case True
  then show ?thesis using assms by (auto simp: atan2f_def)
next
  case False
  have pos: "0 < sqrt (1 + (y / x)\<^sup>2)"
    by (simp add: add_pos_nonneg)
  show ?thesis
  proof (cases "0 < x")
    case True
    then show ?thesis
      using pos by (simp add: atan2f_def hyp_split [OF False] cos_arctan sin_arctan)
  next
    case neg: False
    with False have "x < 0" by simp
    then show ?thesis
      using pos by (simp add: atan2f_def hyp_split [OF False] cos_arctan sin_arctan)
  qed
qed

lemma fault_state_command:
  "fst (GetNECommand example_ext
     (controlNE (updatePathVelocity example_ext (CourseFeedForward example_settings) fault_state)))
   = (3, 0)"
  by (simp add: updatePathVelocity_def Let_def GetVelocityDesired_def UpdateVelocityState_def
      fault_state_def example_active_def example_state_def example_ext_def
      example_controlNE_def example_settings_def split: prod.splits)

subsection \<open>The claims\<close>

text \<open>
  Claim C1, as the code has it. The path engine hands back a progress structure and
  nothing else, and no method tests it: on every cycle of an initialised controller, a
  cycle on a degenerate path included, \<open>updateAutoPilotGround\<close> returns 1, the guidance
  alarm is set to OK and the path status is not marked critical; the published command
  is the mapped command of the cascade controller (roll and pitch 0, yaw the course of
  the command vector in degrees, thrust its length bounded by the thrust limits, all
  four channels manual), not a forced zero command; the path-time accumulator is not
  advanced.
\<close>

theorem C1_no_fault_channel:
  assumes "groundSettings s = Some gs"
    and "fst (GetNECommand ext (controlNE (updatePathVelocity ext (CourseFeedForward gs) s)))
           = (north, east)"
  shows "map_sum id fst (updateAutoPilotGround ext s) = Inr 1 \<and>
         (\<exists>s'. UpdateAutoPilot ext s = Inr s' \<and>
            alarm_GUIDANCE s' = SYSTEMALARMS_ALARM_OK \<and>
            Status (pathStatus s') = Status (pathStatus s) \<and>
            path_time (pathStatus s') = path_time (pathStatus s) \<and>
            uavo_StabilizationDesired s' =
              \<lparr>Roll = 0, Pitch = 0,
               Yaw = RAD2DEG (atan2f east north),
               Thrust = boundf (sqrtf (squaref north + squaref east))
                          (ThrustLimit_Min gs) (ThrustLimit_Max gs),
               StabilizationMode_Roll = STABILIZATIONDESIRED_STABILIZATIONMODE_MANUAL,
               StabilizationMode_Pitch = STABILIZATIONDESIRED_STABILIZATIONMODE_MANUAL,
               StabilizationMode_Yaw = STABILIZATIONDESIRED_STABILIZATIONMODE_MANUAL,
               StabilizationMode_Thrust = STABILIZATIONDESIRED_STABILIZATIONMODE_MANUAL\<rparr>)"
proof -
  let ?s0 = "updatePathVelocity ext (CourseFeedForward gs) s"
  have gs0: "groundSettings ?s0 = Some gs"
    using assms(1) by (simp add: updatePathVelocity_frame)
  have n: "fst (fst (GetNECommand ext (controlNE ?s0))) = north"
    and e: "snd (fst (GetNECommand ext (controlNE ?s0))) = east"
    using assms(2) by simp_all
  have a: "map_sum id fst (updateAutoPilotGround ext s) = Inr 1"
    by (simp add: updateAutoPilotGround_Some [OF assms(1)]
        updateGroundDesiredAttitude_Some [OF gs0])
  show ?thesis
    by (simp add: a UpdateAutoPilot_result [OF assms(1)] updatePathVelocity_frame n e)
qed

theorem C1_no_fault_channel_witness:
  "groundSettings fault_state = Some example_settings \<and>
   degenerate_path (pathDesired fault_state) \<and>
   map_sum id fst (updateAutoPilotGround example_ext fault_state) = Inr 1 \<and>
   map_sum id alarm_GUIDANCE (UpdateAutoPilot example_ext fault_state)
     = Inr SYSTEMALARMS_ALARM_OK \<and>
   map_sum id (path_time \<circ> pathStatus) (UpdateAutoPilot example_ext fault_state) = Inr 0 \<and>
   map_sum id (Thrust \<circ> uavo_StabilizationDesired) (UpdateAutoPilot example_ext fault_state)
     = Inr 1"
proof -
  have h: "groundSettings fault_state = Some example_settings"
    by (simp add: fault_state_def example_active_def example_state_def)
  have d: "degenerate_path (pathDesired fault_state)"
    by (simp add: degenerate_path_def fault_state_def)
  have t: "path_time (pathStatus fault_state) = 0"
    by (simp add: fault_state_def example_active_def example_state_def example_pathStatus_def)
  have b: "boundf (sqrtf (squaref 3 + squaref 0)) (ThrustLimit_Min example_settings)
             (ThrustLimit_Max example_settings) = 1"
    by (simp add: boundf_def sqrtf_def squaref_def example_settings_def)
  from C1_no_fault_channel [OF h fault_state_command] h d t b show ?thesis
    by auto
qed

theorem C1_geometry_fault_counterexample:
  "degenerate_path (pathDesired fault_state) \<and>
   map_sum id fst (updateAutoPilotGround example_ext fault_state) = Inr 1 \<and>
   map_sum id fst (updateAutoPilotGround example_ext fault_state) \<noteq> Inr 0 \<and>
   map_sum id alarm_GUIDANCE (UpdateAutoPilot example_ext fault_state)
     \<noteq> Inr SYSTEMALARMS_ALARM_WARNING \<and>
   map_sum id (Thrust \<circ> uavo_StabilizationDesired) (UpdateAutoPilot example_ext fault_state)
     = Inr 1"
proof -
  have h: "groundSettings fault_state = Some example_settings"
    by (simp add: fault_state_def example_active_def example_state_def)
  let ?s0 = "updatePathVelocity example_ext (CourseFeedForward example_settings) fault_state"
  have gs0: "groundSettings ?s0 = Some example_settings"
    using h by (simp add: updatePathVelocity_frame)
  have d: "degenerate_path (pathDesired fault_state)"
    by (simp add: degenerate_path_def fault_state_def)
  have n: "fst (fst (GetNECommand example_ext (controlNE ?s0))) = 3"
    and e: "snd (fst (GetNECommand example_ext (controlNE ?s0))) = 0"
    using fault_state_command by simp_all
  have b: "boundf (sqrtf (squaref 3 + squaref 0)) (ThrustLimit_Min example_settings)
             (ThrustLimit_Max example_settings) = 1"
    by (simp add: boundf_def sqrtf_def squaref_def example_settings_def)
  have a: "map_sum id fst (updateAutoPilotGround example_ext fault_state) = Inr 1"
    by (simp add: updateAutoPilotGround_Some [OF h] updateGroundDesiredAttitude_Some [OF gs0])
  show ?thesis
    by (simp add: a d UpdateAutoPilot_result [OF h] n e b)
qed

text \<open>
  Claim C2, as the code has it. No method adds to \<open>path_time\<close>: a cycle of an initialised
  controller leaves the accumulator, and the copy published by \<open>PathStatusSet\<close>, at the
  value it had before the cycle. It is therefore constant, and so non-decreasing,
  between two calls of \<open>resetGlobals\<close>, which sets it to 0.
\<close>

theorem C2_path_time_unchanged:
  assumes "groundSettings s = Some gs"
  shows "(\<exists>s'. UpdateAutoPilot ext s = Inr s' \<and>
              path_time (pathStatus s') = path_time (pathStatus s) \<and>
              path_time (uavo_PathStatus s') = path_time (pathStatus s)) \<and>
         path_time (pathStatus (resetGlobals s)) = 0"
  by (simp add: UpdateAutoPilot_result [OF assms] updatePathVelocity_frame resetGlobals_def)

theorem C2_path_time_unchanged_witness:
  "groundSettings example_active = Some example_settings \<and>
   map_sum id (path_time \<circ> pathStatus) (UpdateAutoPilot example_ext example_active)
     = Inr (path_time (pathStatus example_active))"
proof -
  have h: "groundSettings example_active = Some example_settings"
    by (simp add: example_active_def example_state_def)
  from C2_path_time_unchanged [OF h, of example_ext] h show ?thesis
    by auto
qed

theorem C2_path_time_counterexample:
  "mActive example_active \<and>
   groundSettings example_active = Some example_settings \<and>
   map_sum id (path_time \<circ> pathStatus) (UpdateAutoPilot example_ext example_active)
     \<noteq> Inr (path_time (pathStatus example_active) + UpdatePeriod example_settings / 1000)"
proof -
  have h: "groundSettings example_active = Some example_settings"
    by (simp add: example_active_def example_state_def)
  show ?thesis
    by (simp add: UpdateAutoPilot_result [OF h] updatePathVelocity_frame h)
       (simp add: example_active_def example_settings_def)
qed

text \<open>
  Claim C3, where the code departs from it. The comment of \<open>Initialize\<close> promises
  "0 on success or -1 if initialisation failed", and the claim asks for a failure code
  when the parameter structure is missing. The body has one return statement,
  \<open>return 0\<close>: whatever the pointer and the controller state are, the call never
  yields -1, nor any result other than 0. With a null pointer the assertion fails and
  the call yields no return value at all; with a parameter structure it returns 0,
  stores the pointer and zeroes the path-time accumulator. A controller whose settings
  pointer is null does not become active either, but by a null dereference in
  \<open>SettingsUpdated\<close>, not by a reported refusal.
\<close>

theorem C3_Initialize_reports_no_failure:
  "map_sum id fst (Initialize ptr_groundSettings s) \<noteq> Inr (- 1) \<and>
   map_sum id fst (Initialize ptr_groundSettings s)
     = (if ptr_groundSettings = None then Inl AssertFailed else Inr 0) \<and>
   Initialize None s = Inl AssertFailed \<and>
   Initialize (Some gs) s =
     Inr (0, s\<lparr>groundSettings := Some gs, pathStatus := (pathStatus s)\<lparr>path_time := 0\<rparr>\<rparr>) \<and>
   Activate (s\<lparr>groundSettings := None, mActive := False\<rparr>) = Inl NullPointer"
  by (simp add: Initialize_def PIOS_Assert_def resetGlobals_def Activate_def
      SettingsUpdated_def)

text \<open>
  Claim C4. \<open>Activate\<close> on an initialised, inactive controller succeeds, and right after it
  the integrator and the cached command of the cascade controller and the path-time
  accumulator are zero, whatever they were before; the controller is active and has
  recorded the mode of the desired path.
\<close>

theorem C4_Activate_resets:
  assumes "groundSettings s = Some gs" and "\<not> mActive s"
  shows "\<exists>s'. Activate s = Inr s' \<and>
           integratorNE (controlNE s') = (0, 0) \<and>
           lastCommandNE (controlNE s') = (0, 0) \<and>
           path_time (pathStatus s') = 0 \<and>
           mActive s' \<and> mMode s' = Mode (pathDesired s)"
  using assms
  by (simp add: Activate_def SettingsUpdated_def Let_def resetGlobals_def
      PIDControlNE_Activate_def UpdatePositionalParameters_def
      UpdateParameters_def UpdateCommandParameters_def)

theorem C4_Activate_resets_witness:
  "groundSettings (Deactivate (example_active\<lparr>pathStatus := example_pathStatus\<lparr>path_time := 5\<rparr>\<rparr>))
     = Some example_settings \<and>
   integratorNE (controlNE example_active) = (2, - 1) \<and>
   \<not> mActive (Deactivate (example_active\<lparr>pathStatus := example_pathStatus\<lparr>path_time := 5\<rparr>\<rparr>)) \<and>
   map_sum id (integratorNE \<circ> controlNE)
     (Activate (Deactivate (example_active\<lparr>pathStatus := example_pathStatus\<lparr>path_time := 5\<rparr>\<rparr>)))
     = Inr (0, 0) \<and>
   map_sum id (path_time \<circ> pathStatus)
     (Activate (Deactivate (example_active\<lparr>pathStatus := example_pathStatus\<lparr>path_time := 5\<rparr>\<rparr>)))
     = Inr 0 \<and>
   map_sum id mActive
     (Activate (Deactivate (example_active\<lparr>pathStatus := example_pathStatus\<lparr>path_time := 5\<rparr>\<rparr>)))
     = Inr True"
proof -
  let ?s = "Deactivate (example_active\<lparr>pathStatus := example_pathStatus\<lparr>path_time := 5\<rparr>\<rparr>)"
  have h: "groundSettings ?s = Some example_settings"
    by (simp add: Deactivate_def resetGlobals_def Let_def example_active_def example_state_def)
  have i: "\<not> mActive ?s"
    by (simp add: Deactivate_def resetGlobals_def Let_def example_active_def example_state_def)
  have k: "integratorNE (controlNE example_active) = (2, - 1)"
    by (simp add: example_active_def example_state_def example_controlNE_def)
  from C4_Activate_resets [OF h i] h i k show ?thesis
    by auto
qed

text \<open>
  Claim C5. \<open>Activate\<close> on an active controller and \<open>Deactivate\<close> on an inactive one
  return the state they were given: integrator, path-time accumulator, recorded mode
  and active flag are all unchanged.
\<close>

theorem C5_idempotent:
  "(mActive s \<longrightarrow> Activate s = Inr s) \<and> (\<not> mActive s \<longrightarrow> Deactivate s = s)"
  by (simp add: Activate_def Deactivate_def)

theorem C5_idempotent_witness:
  "mActive example_active \<and> Activate example_active = Inr example_active \<and>
   \<not> mActive example_state \<and> Deactivate example_state = example_state"
  using C5_idempotent [of example_active] C5_idempotent [of example_state]
  by (simp add: example_active_def example_state_def)

text \<open>
  Claim C6. For the command vector \<open>(north, east)\<close> that the cascade controller returns,
  \<open>updateGroundDesiredAttitude\<close> publishes yaw = \<open>RAD2DEG (atan2f east north)\<close> and
  thrust = the length of the vector (the square root of north squared plus east squared) bounded by the thrust limits: with
  \<open>ThrustLimit_Min \<le> ThrustLimit_Max\<close> the thrust lies between the limits, and it is
  exactly \<open>ThrustLimit_Max\<close> when the length exceeds it. The yaw is the same whatever
  the limits are. (\<open>atan2f_polar\<close> and \<open>atan2f_range\<close> above show that \<open>atan2f\<close> is the
  angle of the vector.)
\<close>

theorem C6_command_mapper:
  assumes "groundSettings s = Some gs"
    and "fst (GetNECommand ext (controlNE s)) = (north, east)"
  shows "\<exists>s'. updateGroundDesiredAttitude ext s = Inr (1, s') \<and>
           Yaw (uavo_StabilizationDesired s') = RAD2DEG (atan2f east north) \<and>
           Thrust (uavo_StabilizationDesired s') =
             boundf (sqrt (north\<^sup>2 + east\<^sup>2)) (ThrustLimit_Min gs) (ThrustLimit_Max gs) \<and>
           (ThrustLimit_Min gs \<le> ThrustLimit_Max gs \<longrightarrow>
              Thrust (uavo_StabilizationDesired s') =
                max (ThrustLimit_Min gs) (min (sqrt (north\<^sup>2 + east\<^sup>2)) (ThrustLimit_Max gs)) \<and>
              ThrustLimit_Min gs \<le> Thrust (uavo_StabilizationDesired s') \<and>
              Thrust (uavo_StabilizationDesired s') \<le> ThrustLimit_Max gs) \<and>
           (ThrustLimit_Min gs \<le> ThrustLimit_Max gs \<and>
            ThrustLimit_Max gs < sqrt (north\<^sup>2 + east\<^sup>2) \<longrightarrow>
              Thrust (uavo_StabilizationDesired s') = ThrustLimit_Max gs) \<and>
           Roll (uavo_StabilizationDesired s') = 0 \<and>
           Pitch (uavo_StabilizationDesired s') = 0 \<and>
           (\<forall>gs'. map_sum id (Yaw \<circ> uavo_StabilizationDesired \<circ> snd)
                    (updateGroundDesiredAttitude ext (s\<lparr>groundSettings := Some gs'\<rparr>))
                  = Inr (Yaw (uavo_StabilizationDesired s')))"
proof -
  have n: "fst (fst (GetNECommand ext (controlNE s))) = north"
    and e: "snd (fst (GetNECommand ext (controlNE s))) = east"
    using assms(2) by simp_all
  have sq: "sqrtf (squaref north + squaref east) = sqrt (north\<^sup>2 + east\<^sup>2)"
    by (simp add: sqrtf_def squaref_def power2_eq_square)
  have other: "\<And>gs'. groundSettings (s\<lparr>groundSettings := Some gs'\<rparr>) = Some gs'"
    by simp
  show ?thesis
    by (simp add: updateGroundDesiredAttitude_Some [OF assms(1)]
        updateGroundDesiredAttitude_Some [OF other] n e sq)
       (auto simp: boundf_def)
qed

theorem C6_command_mapper_witness:
  "groundSettings example_active = Some example_settings \<and>
   fst (GetNECommand example_ext (controlNE example_active)) = (3, 0) \<and>
   ThrustLimit_Min example_settings \<le> ThrustLimit_Max example_settings \<and>
   ThrustLimit_Max example_settings < sqrt (3\<^sup>2 + 0\<^sup>2) \<and>
   map_sum id (Thrust \<circ> uavo_StabilizationDesired \<circ> snd)
     (updateGroundDesiredAttitude example_ext example_active) = Inr 1 \<and>
   map_sum id (Yaw \<circ> uavo_StabilizationDesired \<circ> snd)
     (updateGroundDesiredAttitude example_ext example_active) = Inr (RAD2DEG (atan2f 0 3))"
proof -
  have h: "groundSettings example_active = Some example_settings"
    by (simp add: example_active_def example_state_def)
  have c: "fst (GetNECommand example_ext (controlNE example_active)) = (3, 0)"
    by (simp add: example_active_def example_state_def example_ext_def example_controlNE_def Let_def)
  have l: "ThrustLimit_Min example_settings \<le> ThrustLimit_Max example_settings"
    "ThrustLimit_Max example_settings = 1"
    by (simp_all add: example_settings_def)
  have m: "ThrustLimit_Max example_settings < sqrt (3\<^sup>2 + 0\<^sup>2)"
    by (simp add: example_settings_def)
  from C6_command_mapper [OF h c] h c l m show ?thesis
    by auto
qed

text \<open>
  Claim C7. \<open>updatePathVelocity\<close> queries the path engine at the point
  \<open>p + v \<cdot> kFF\<close>, on each of the three axes, and nowhere else: the path status it
  writes and the progress it hands to the outer stage are the engine's answer at that
  point, and replacing the engine by the constant function with that answer changes
  nothing. The point is a function of \<open>p\<close>, \<open>v\<close> and \<open>kFF\<close> alone, and the method
  has no failing branch.
\<close>

theorem C7_lookahead:
  "pathStatus (updatePathVelocity ext kFF s) =
     (let pr = path_progress ext (pathDesired s)
                 (North (uavo_PositionState s) + North (uavo_VelocityState s) * kFF,
                  East (uavo_PositionState s) + East (uavo_VelocityState s) * kFF,
                  Down (uavo_PositionState s) + Down (uavo_VelocityState s) * kFF) False
      in (pathStatus s)\<lparr>
           error := progress_error pr,
           fractional_progress := progress_fractional_progress pr,
           path_direction_north := fst (path_vector pr),
           path_direction_east := fst (snd (path_vector pr)),
           path_direction_down := snd (snd (path_vector pr)),
           correction_direction_north := fst (correction_vector pr),
           correction_direction_east := fst (snd (correction_vector pr)),
           correction_direction_down := snd (snd (correction_vector pr))\<rparr>) \<and>
   controlNE (updatePathVelocity ext kFF s) =
     ControlPositionWithPath ext
       (UpdateVelocityState (controlNE s) (North (uavo_VelocityState s)) (East (uavo_VelocityState s)))
       (path_progress ext (pathDesired s)
          (North (uavo_PositionState s) + North (uavo_VelocityState s) * kFF,
           East (uavo_PositionState s) + East (uavo_VelocityState s) * kFF,
           Down (uavo_PositionState s) + Down (uavo_VelocityState s) * kFF) False) \<and>
   updatePathVelocity
     (ext\<lparr>path_progress := \<lambda>pd cur mode3D.
        path_progress ext (pathDesired s)
          (North (uavo_PositionState s) + North (uavo_VelocityState s) * kFF,
           East (uavo_PositionState s) + East (uavo_VelocityState s) * kFF,
           Down (uavo_PositionState s) + Down (uavo_VelocityState s) * kFF) False\<rparr>) kFF s
     = updatePathVelocity ext kFF s"
  by (simp add: updatePathVelocity_def Let_def split: prod.splits)

text \<open>
  Claim C8. \<open>SettingsUpdated\<close> on an initialised controller succeeds; it hands the
  cascade controller the period \<open>UpdatePeriod / 1000\<close>, the position gain, the gains of
  the velocity loop, the velocity limit, the thrust limits and the feed-forward, and
  changes nothing but these parameters: integrator, cached command, armed flag, active
  flag, recorded mode and path status (the path-time accumulator with it) are as
  before.
\<close>

theorem C8_SettingsUpdated:
  assumes "groundSettings s = Some gs"
  shows "\<exists>s'. SettingsUpdated s = Inr s' \<and>
           loop_dT (controlNE s') = UpdatePeriod gs / 1000 \<and>
           positionGain (controlNE s') = HorizontalPosP gs \<and>
           loop_Kp (controlNE s') = SpeedPI_Kp gs \<and>
           loop_Ki (controlNE s') = SpeedPI_Ki gs \<and>
           loop_Kd (controlNE s') = SpeedPI_Kd gs \<and>
           loop_Beta (controlNE s') = SpeedPI_Beta gs \<and>
           loop_velMax (controlNE s') = HorizontalVelMax gs \<and>
           command_min (controlNE s') = ThrustLimit_Min gs \<and>
           command_max (controlNE s') = ThrustLimit_Max gs \<and>
           command_feedForward (controlNE s') = VelocityFeedForward gs \<and>
           integratorNE (controlNE s') = integratorNE (controlNE s) \<and>
           lastCommandNE (controlNE s') = lastCommandNE (controlNE s) \<and>
           armed (controlNE s') = armed (controlNE s) \<and>
           mActive s' = mActive s \<and> mMode s' = mMode s \<and>
           pathStatus s' = pathStatus s \<and>
           s' = s\<lparr>controlNE := controlNE s'\<rparr>"
  using assms
  by (simp add: SettingsUpdated_def Let_def UpdatePositionalParameters_def
      UpdateParameters_def UpdateCommandParameters_def)

theorem C8_SettingsUpdated_witness:
  "groundSettings example_active = Some example_settings \<and>
   map_sum id (loop_dT \<circ> controlNE) (SettingsUpdated example_active) = Inr (1 / 10) \<and>
   map_sum id (integratorNE \<circ> controlNE) (SettingsUpdated example_active) = Inr (2, - 1) \<and>
   map_sum id mActive (SettingsUpdated example_active) = Inr True \<and>
   map_sum id (path_time \<circ> pathStatus) (SettingsUpdated example_active) = Inr 0"
proof -
  have h: "groundSettings example_active = Some example_settings"
    by (simp add: example_active_def example_state_def)
  from C8_SettingsUpdated [OF h] h show ?thesis
    by (auto simp: example_active_def example_state_def example_settings_def
        example_controlNE_def example_pathStatus_def)
qed

text \<open>
  Claim C9. On an initialised controller, whatever the kinematic state, the path, the
  settings, the path engine and the control laws are, \<open>updateGroundDesiredAttitude\<close> and
  \<open>updateAutoPilotGround\<close> return 1, and \<open>UpdateAutoPilot\<close> sets the guidance alarm to OK
  and leaves the status of the path as it was: the branch that raises the warning and
  marks the path critical is never taken.
\<close>

theorem C9_always_success:
  assumes "groundSettings s = Some gs"
  shows "map_sum id fst (updateGroundDesiredAttitude ext s) = Inr 1 \<and>
         map_sum id fst (updateAutoPilotGround ext s) = Inr 1 \<and>
         (\<exists>s'. UpdateAutoPilot ext s = Inr s' \<and>
               alarm_GUIDANCE s' = SYSTEMALARMS_ALARM_OK \<and>
               Status (pathStatus s') = Status (pathStatus s) \<and>
               Status (uavo_PathStatus s') = Status (pathStatus s))"
proof -
  let ?s0 = "updatePathVelocity ext (CourseFeedForward gs) s"
  have gs0: "groundSettings ?s0 = Some gs"
    using assms by (simp add: updatePathVelocity_frame)
  have a: "map_sum id fst (updateGroundDesiredAttitude ext s) = Inr 1"
    by (simp add: updateGroundDesiredAttitude_Some [OF assms])
  have b: "map_sum id fst (updateAutoPilotGround ext s) = Inr 1"
    by (simp add: updateAutoPilotGround_Some [OF assms] updateGroundDesiredAttitude_Some [OF gs0])
  have c: "\<exists>s'. UpdateAutoPilot ext s = Inr s' \<and>
               alarm_GUIDANCE s' = SYSTEMALARMS_ALARM_OK \<and>
               Status (pathStatus s') = Status (pathStatus s) \<and>
               Status (uavo_PathStatus s') = Status (pathStatus s)"
    by (simp add: UpdateAutoPilot_result [OF assms] updatePathVelocity_frame)
  from a b c show ?thesis by blast
qed

theorem C9_always_success_witness:
  "groundSettings fault_state = Some example_settings \<and>
   map_sum id fst (updateGroundDesiredAttitude example_ext fault_state) = Inr 1 \<and>
   map_sum id fst (updateAutoPilotGround example_ext fault_state) = Inr 1 \<and>
   map_sum id alarm_GUIDANCE (UpdateAutoPilot example_ext fault_state) = Inr SYSTEMALARMS_ALARM_OK \<and>
   map_sum id (Status \<circ> pathStatus) (UpdateAutoPilot example_ext fault_state)
     = Inr PATHSTATUS_STATUS_INPROGRESS"
proof -
  have h: "groundSettings fault_state = Some example_settings"
    by (simp add: fault_state_def example_active_def example_state_def)
  have st: "Status (pathStatus fault_state) = PATHSTATUS_STATUS_INPROGRESS"
    by (simp add: fault_state_def example_active_def example_state_def example_pathStatus_def)
  from C9_always_success [OF h, of example_ext] h st show ?thesis
    by auto
qed

text \<open>
  Claim C10. The desired velocity that \<open>updatePathVelocity\<close> publishes has Down = 0, and
  so has the one published after a whole cycle of an initialised controller, whatever
  the kinematic state and the path are.
\<close>

theorem C10_down_zero:
  assumes "groundSettings s = Some gs"
  shows "Down (uavo_VelocityDesired (updatePathVelocity ext kFF s)) = 0 \<and>
         (\<exists>s'. UpdateAutoPilot ext s = Inr s' \<and> Down (uavo_VelocityDesired s') = 0)"
  by (simp add: UpdateAutoPilot_result [OF assms] updatePathVelocity_frame)

theorem C10_down_zero_witness:
  "groundSettings example_active = Some example_settings \<and>
   Down (uavo_VelocityDesired example_active) = 7 \<and>
   Down (uavo_VelocityDesired (updatePathVelocity example_ext 1 example_active)) = 0 \<and>
   map_sum id (Down \<circ> uavo_VelocityDesired) (UpdateAutoPilot example_ext example_active) = Inr 0"
proof -
  have h: "groundSettings example_active = Some example_settings"
    by (simp add: example_active_def example_state_def)
  from C10_down_zero [OF h, of example_ext 1] h show ?thesis
    by (auto simp: example_active_def example_state_def)
qed

end
